theory Spec2Isabelle
  imports Main
begin

section \<open>The request decoder of lmdrouter (decoder.go)\<close>

text \<open>
  A shallow embedding of \<^verbatim>\<open>src/decoder.go\<close>: \<^verbatim>\<open>UnmarshalRequest\<close>,
  \<^verbatim>\<open>unmarshalEvent\<close>, \<^verbatim>\<open>unmarshalBody\<close>, \<^verbatim>\<open>unmarshalField\<close> and the three
  \<^verbatim>\<open>parse...Param\<close> helpers. Go strings are byte strings (\<open>string\<close>); Go maps are
  partial functions (reading a nil map and reading an empty map both give "absent"); the
  reflective writes into the target become explicit state passing; a returned error and a
  panic are two different outcomes.
\<close>

subsection \<open>Strings\<close>

text \<open>
  \<^verbatim>\<open>strings.ToLower\<close>, on ASCII text: the letters A..Z are mapped to a..z, every other
  byte is kept. (Go also lower-cases non-ASCII runes; no such rune lower-cases to an
  ASCII letter that occurs in the pattern of \<^verbatim>\<open>boolRegex\<close>.)
\<close>

definition lower_char :: "char \<Rightarrow> char" where
  "lower_char c =
     (case map_of (zip ''ABCDEFGHIJKLMNOPQRSTUVWXYZ'' ''abcdefghijklmnopqrstuvwxyz'') c of
        None \<Rightarrow> c
      | Some l \<Rightarrow> l)"

definition ToLower :: "string \<Rightarrow> string" where
  "ToLower s = map lower_char s"

text \<open>
  \<^verbatim>\<open>strings.Split(s, ".")\<close> for a one-byte separator: the pieces between the
  separators, in order; a string without separator gives the one-element list \<open>[s]\<close>.
\<close>

fun Split :: "string \<Rightarrow> char \<Rightarrow> string list" where
  "Split [] sep = [[]]"
| "Split (c # cs) sep =
     (if c = sep then [] # Split cs sep
      else (case Split cs sep of
              [] \<Rightarrow> [[c]]
            | p # ps \<Rightarrow> (c # p) # ps))"

text \<open>\<^verbatim>\<open>strings.HasPrefix\<close>, \<^verbatim>\<open>strings.Contains\<close> and \<^verbatim>\<open>strings.HasSuffix\<close>.\<close>

fun HasPrefix :: "string \<Rightarrow> string \<Rightarrow> bool" where
  "HasPrefix s [] = True"
| "HasPrefix [] (p # ps) = False"
| "HasPrefix (c # cs) (p # ps) = (c = p \<and> HasPrefix cs ps)"

fun Contains :: "string \<Rightarrow> string \<Rightarrow> bool" where
  "Contains [] substr = (substr = [])"
| "Contains (c # cs) substr = (HasPrefix (c # cs) substr \<or> Contains cs substr)"

definition HasSuffix :: "string \<Rightarrow> string \<Rightarrow> bool" where
  "HasSuffix s suffix = HasPrefix (rev s) (rev suffix)"

text \<open>
  \<^verbatim>\<open>boolRegex = regexp.MustCompile(`^1|true|on|enabled$`)\<close>. Alternation binds weaker than
  concatenation and than the anchors, so the pattern is the union of four alternatives:
  \<^verbatim>\<open>^1\<close> (the text starts with 1), \<^verbatim>\<open>true\<close> (the text contains true), \<^verbatim>\<open>on\<close> (the text
  contains on) and \<^verbatim>\<open>enabled$\<close> (the text ends with enabled). \<^verbatim>\<open>MatchString\<close> reports
  whether the text contains any match.
\<close>

definition boolRegex_MatchString :: "string \<Rightarrow> bool" where
  "boolRegex_MatchString s =
     (HasPrefix s ''1'' \<or> Contains s ''true'' \<or> Contains s ''on'' \<or> HasSuffix s ''enabled'')"

subsection \<open>strconv\<close>

definition is_digit :: "char \<Rightarrow> bool" where
  "is_digit c = (let n = (of_char c :: nat) in 48 \<le> n \<and> n \<le> 57)"

definition digit_val :: "char \<Rightarrow> nat" where
  "digit_val c = of_char c - 48"

text \<open>
  The loop of \<^verbatim>\<open>strconv.ParseUint(s, 10, 64)\<close>: every byte must be a decimal digit
  (syntax error otherwise) and the accumulated value must stay below \<open>2 ^ 64\<close> (range
  error otherwise). Both errors are \<open>None\<close>: the callers only test \<^verbatim>\<open>err != nil\<close>.
\<close>

fun ParseUint_loop :: "nat \<Rightarrow> string \<Rightarrow> nat option" where
  "ParseUint_loop n [] = Some n"
| "ParseUint_loop n (c # cs) =
     (if \<not> is_digit c then None
      else if n * 10 + digit_val c \<ge> 2 ^ 64 then None
      else ParseUint_loop (n * 10 + digit_val c) cs)"

definition ParseUint :: "string \<Rightarrow> nat option" where
  "ParseUint s = (if s = [] then None else ParseUint_loop 0 s)"

text \<open>
  \<^verbatim>\<open>strconv.ParseInt(s, 10, 64)\<close>: an optional sign, then \<^verbatim>\<open>ParseUint\<close> on the rest;
  the result must lie in \<open>- 2 ^ 63 .. 2 ^ 63 - 1\<close>.
\<close>

definition ParseInt :: "string \<Rightarrow> int option" where
  "ParseInt s =
     (case s of
        [] \<Rightarrow> None
      | c # cs \<Rightarrow>
          (let neg = (c = CHR ''-'');
               rest = (if c = CHR ''+'' \<or> c = CHR ''-'' then cs else s)
           in case ParseUint rest of
                None \<Rightarrow> None
              | Some un \<Rightarrow>
                  if \<not> neg \<and> un \<ge> 2 ^ 63 then None
                  else if neg \<and> un > 2 ^ 63 then None
                  else Some (if neg then - int un else int un)))"

subsection \<open>Types, values, errors\<close>

text \<open>
  \<^verbatim>\<open>reflect.Type\<close> of a field, as far as \<^verbatim>\<open>unmarshalField\<close> looks at it: its kind and,
  for pointers and slices, the element type. \<open>TTime\<close> is the struct type
  \<^verbatim>\<open>time.Time\<close>, \<open>TStruct\<close> any other struct type, \<open>TOther\<close> any remaining kind
  (map, chan, func, interface, array, complex).
\<close>

datatype gotype =
    TString
  | TInt | TInt8 | TInt16 | TInt32 | TInt64
  | TUint | TUint8 | TUint16 | TUint32 | TUint64
  | TFloat32 | TFloat64
  | TBool
  | TPtr gotype
  | TSlice gotype
  | TTime
  | TStruct
  | TOther

text \<open>A \<^verbatim>\<open>float64\<close> is given by its IEEE 754 bits; the zero value has the bits 0.\<close>

datatype float64 = Float64frombits nat

text \<open>A \<^verbatim>\<open>time.Time\<close>, as the nanoseconds since the zero time.\<close>

datatype gotime = Time int

text \<open>
  The content of a field. A pointer is \<open>VPtr None\<close> when nil; a slice is
  \<open>VSlice None\<close> when nil. In a \<^verbatim>\<open>float32\<close> field, \<open>VFloat d\<close> stands for
  \<^verbatim>\<open>float32(d)\<close>.
\<close>

datatype val =
    VString string
  | VInt int
  | VUint nat
  | VFloat float64
  | VBool bool
  | VPtr "val option"
  | VSlice "val list option"
  | VTime gotime
  | VOther

text \<open>
  The errors the decoder returns:
  \<^item> \<open>InvalidTarget\<close>: \<^verbatim>\<open>errors.New("invalid unmarshal target, must be pointer to struct")\<close>;
  \<^item> \<open>InvalidTag name\<close>: \<^verbatim>\<open>fmt.Errorf("invalid lambda tag for field %s", name)\<close>;
  \<^item> \<open>InvalidLocation loc name\<close>:
    \<^verbatim>\<open>fmt.Errorf("invalid param location %q for field %s", loc, name)\<close>;
  \<^item> \<open>DecodeError e\<close>: \<^verbatim>\<open>fmt.Errorf("failed decoding body: %w", err)\<close>, \<open>e\<close> the text of
    the wrapped error;
  \<^item> \<open>HTTPError code message\<close>: the struct \<^verbatim>\<open>HTTPError{Code: ..., Message: ...}\<close>, the only
    error value that carries a status code;
  \<^item> \<open>TimeParseError e\<close>: the error of \<^verbatim>\<open>time.Parse\<close>, returned as it is.
\<close>

datatype error =
    InvalidTarget
  | InvalidTag string
  | InvalidLocation string string
  | DecodeError string
  | HTTPError (Code: nat) (Message: string)
  | TimeParseError string

text \<open>What a call does: it returns nil, it returns an error, or it panics.\<close>

datatype outcome = NoError | Error error | Panic string

definition StatusBadRequest :: nat where
  "StatusBadRequest = 400"

subsection \<open>The target and the request\<close>

text \<open>
  One exported field of the target struct: its name, the value of its \<^verbatim>\<open>lambda\<close> struct
  tag (empty when there is none), its type and its content.
\<close>

record field =
  Name :: string
  Tag :: string
  Type :: gotype
  Value :: val

text \<open>
  The \<^verbatim>\<open>target interface{}\<close> argument: something that is not a pointer, a nil pointer,
  a pointer to something that is not a struct, or a pointer to a struct with its fields
  in declaration order.
\<close>

datatype target = NonPointer | NilPointer | PtrToNonStruct | PtrToStruct "field list"

text \<open>The fields of \<^verbatim>\<open>events.APIGatewayProxyRequest\<close> that the decoder reads.\<close>

record APIGatewayProxyRequest =
  QueryStringParameters :: "string \<rightharpoonup> string"
  MultiValueQueryStringParameters :: "string \<rightharpoonup> string list"
  PathParameters :: "string \<rightharpoonup> string"
  Headers :: "string \<rightharpoonup> string"
  MultiValueHeaders :: "string \<rightharpoonup> string list"
  Body :: string
  IsBase64Encoded :: bool

subsection \<open>The parameter parsers\<close>

text \<open>
  Functions of Go's standard library that the decoder calls and whose results it only
  passes on: \<^verbatim>\<open>strconv.ParseFloat(s, 64)\<close> (\<open>None\<close> for an error),
  \<^verbatim>\<open>time.Parse(time.RFC3339, s)\<close>, \<^verbatim>\<open>base64.StdEncoding.DecodeString\<close> (\<open>Inl\<close> the
  error text) and \<^verbatim>\<open>json.Unmarshal\<close> into the target (the target afterwards, and the
  error text if it failed).
\<close>

record stdlib =
  ParseFloat :: "string \<Rightarrow> float64 option"
  ParseTime :: "string \<Rightarrow> string + gotime"
  DecodeString :: "string \<Rightarrow> string + string"
  Unmarshal :: "string \<Rightarrow> target \<Rightarrow> target \<times> string option"

text \<open>
  \<^verbatim>\<open>parseInt64Param(param, str, ok)\<close>, \<^verbatim>\<open>parseUint64Param\<close>, \<^verbatim>\<open>parseFloat64Param\<close>:
  the zero value when the key is absent, the parsed value, or the \<^verbatim>\<open>HTTPError\<close> whose
  message starts with \<open>param\<close>.
\<close>

definition parseInt64Param :: "string \<Rightarrow> string option \<Rightarrow> error + int" where
  "parseInt64Param param str_ok =
     (case str_ok of
        None \<Rightarrow> Inr 0
      | Some str \<Rightarrow>
          (case ParseInt str of
             None \<Rightarrow> Inl (HTTPError StatusBadRequest (param @ '' must be a valid integer''))
           | Some v \<Rightarrow> Inr v))"

definition parseUint64Param :: "string \<Rightarrow> string option \<Rightarrow> error + nat" where
  "parseUint64Param param str_ok =
     (case str_ok of
        None \<Rightarrow> Inr 0
      | Some str \<Rightarrow>
          (case ParseUint str of
             None \<Rightarrow> Inl (HTTPError StatusBadRequest
                           (param @ '' must be a valid, positive integer''))
           | Some v \<Rightarrow> Inr v))"

definition parseFloat64Param ::
  "(string \<Rightarrow> float64 option) \<Rightarrow> string \<Rightarrow> string option \<Rightarrow> error + float64" where
  "parseFloat64Param parse_float param str_ok =
     (case str_ok of
        None \<Rightarrow> Inr (Float64frombits 0)
      | Some str \<Rightarrow>
          (case parse_float str of
             None \<Rightarrow> Inl (HTTPError StatusBadRequest
                           (param @ '' must be a valid floating point number''))
           | Some v \<Rightarrow> Inr v))"

subsection \<open>Writing a field\<close>

text \<open>
  \<^verbatim>\<open>reflect.Value.SetInt\<close> and \<^verbatim>\<open>SetUint\<close> store \<^verbatim>\<open>int8(x)\<close>, \<^verbatim>\<open>uint16(x)\<close>, ...: the
  conversion to the field's width keeps the low bits (two's complement for the signed
  kinds). They panic only on a field of another kind. \<^verbatim>\<open>int\<close> and \<^verbatim>\<open>uint\<close> have 64
  bits on the platforms the library runs on.
\<close>

fun bits :: "gotype \<Rightarrow> nat" where
  "bits TInt8 = 8"
| "bits TInt16 = 16"
| "bits TInt32 = 32"
| "bits TUint8 = 8"
| "bits TUint16 = 16"
| "bits TUint32 = 32"
| "bits t = 64"

definition SetInt :: "gotype \<Rightarrow> int \<Rightarrow> val" where
  "SetInt t x = VInt ((x + 2 ^ (bits t - 1)) mod 2 ^ bits t - 2 ^ (bits t - 1))"

definition SetUint :: "gotype \<Rightarrow> nat \<Rightarrow> val" where
  "SetUint t x = VUint (x mod 2 ^ bits t)"

text \<open>The zero value of a type: what \<^verbatim>\<open>reflect.MakeSlice\<close> fills a new slice with.\<close>

fun zero_val :: "gotype \<Rightarrow> val" where
  "zero_val TString = VString []"
| "zero_val TFloat32 = VFloat (Float64frombits 0)"
| "zero_val TFloat64 = VFloat (Float64frombits 0)"
| "zero_val TBool = VBool False"
| "zero_val (TPtr t) = VPtr None"
| "zero_val (TSlice t) = VSlice None"
| "zero_val TTime = VTime (Time 0)"
| "zero_val TStruct = VOther"
| "zero_val TOther = VOther"
| "zero_val t = (if t \<in> {TInt, TInt8, TInt16, TInt32, TInt64} then VInt 0 else VUint 0)"

subsection \<open>unmarshalField\<close>

text \<open>
  \<^verbatim>\<open>unmarshalField(typeField, valueField, params, multiParam, param)\<close>: the content of the
  field afterwards and the outcome. The pointer and the slice case come first here, the
  other cases of the \<^verbatim>\<open>switch\<close> follow in the source's order; a kind without a case
  falls through to \<^verbatim>\<open>return nil\<close>.

  In the pointer case \<^verbatim>\<open>reflect.ValueOf(&val).Convert(typeField)\<close> converts a \<^verbatim>\<open>*string\<close>
  to the field's pointer type, which Go allows only when the element type is a string
  type; for \<^verbatim>\<open>*int\<close>, \<^verbatim>\<open>*int32\<close>, \<^verbatim>\<open>*int64\<close>, \<^verbatim>\<open>*float32\<close> and \<^verbatim>\<open>*float64\<close> \<^verbatim>\<open>Convert\<close>
  panics.

  \<open>unmarshalElems\<close> is the \<^verbatim>\<open>for i, str := range strs\<close> loop of the slice case: each
  element of the new slice starts at its zero value and is filled from the one-entry map
  \<^verbatim>\<open>{"param": str}\<close> under the key \<^verbatim>\<open>"param"\<close>, with a nil multi-valued map. \<open>Inl\<close> is
  the first error or panic, \<open>Inr\<close> the filled slice.
\<close>

fun unmarshalField ::
  "stdlib \<Rightarrow> gotype \<Rightarrow> val \<Rightarrow> (string \<rightharpoonup> string) \<Rightarrow> (string \<rightharpoonup> string list) \<Rightarrow> string
     \<Rightarrow> val \<times> outcome"
and unmarshalElems :: "stdlib \<Rightarrow> gotype \<Rightarrow> string list \<Rightarrow> outcome + val list" where
  "unmarshalField L (TPtr et) valueField params multiParam param =
     (case params param of
        None \<Rightarrow> (valueField, NoError)
      | Some val \<Rightarrow>
          if et \<in> {TInt, TInt32, TInt64, TString, TFloat32, TFloat64} then
            (if et = TString then (VPtr (Some (VString val)), NoError)
             else (valueField, Panic ''reflect.Value.Convert''))
          else if et = TTime then
            (case ParseTime L val of
               Inl e \<Rightarrow> (valueField, Error (TimeParseError e))
             | Inr parsedTime \<Rightarrow> (VPtr (Some (VTime parsedTime)), NoError))
          else if et = TBool then
            (VPtr (Some (VBool (boolRegex_MatchString (ToLower val)))), NoError)
          else (valueField, NoError))"
| "unmarshalField L (TSlice et) valueField params multiParam param =
     (case multiParam param of
        None \<Rightarrow> (valueField, NoError)
      | Some strs \<Rightarrow>
          (case unmarshalElems L et strs of
             Inl r \<Rightarrow> (valueField, r)
           | Inr slice \<Rightarrow> (VSlice (Some slice), NoError)))"
| "unmarshalField L t valueField params multiParam param =
     (if t = TString then
        (VString (case params param of None \<Rightarrow> [] | Some str \<Rightarrow> str), NoError)
      else if t \<in> {TInt, TInt8, TInt16, TInt32, TInt64} then
        (case parseInt64Param param (params param) of
           Inl err \<Rightarrow> (valueField, Error err)
         | Inr value \<Rightarrow> (SetInt t value, NoError))
      else if t \<in> {TUint, TUint8, TUint16, TUint32, TUint64} then
        (case parseUint64Param param (params param) of
           Inl err \<Rightarrow> (valueField, Error err)
         | Inr value \<Rightarrow> (SetUint t value, NoError))
      else if t \<in> {TFloat32, TFloat64} then
        (case parseFloat64Param (ParseFloat L) param (params param) of
           Inl err \<Rightarrow> (valueField, Error err)
         | Inr value \<Rightarrow> (VFloat value, NoError))
      else if t = TBool then
        (VBool (boolRegex_MatchString
                  (ToLower (case params param of None \<Rightarrow> [] | Some str \<Rightarrow> str))), NoError)
      else (valueField, NoError))"
| "unmarshalElems L et [] = Inr []"
| "unmarshalElems L et (str # strs) =
     (case unmarshalField L et (zero_val et) [''param'' \<mapsto> str] Map.empty ''param'' of
        (elem, NoError) \<Rightarrow>
          (case unmarshalElems L et strs of
             Inl r \<Rightarrow> Inl r
           | Inr slice \<Rightarrow> Inr (elem # slice))
      | (elem, r) \<Rightarrow> Inl r)"

subsection \<open>unmarshalEvent, unmarshalBody, UnmarshalRequest\<close>

text \<open>
  The loop of \<^verbatim>\<open>unmarshalEvent\<close> over the fields of the struct, in declaration order. A
  field without tag is skipped. The first error or panic ends the loop; the fields
  written before it stay written.
\<close>

fun unmarshalFields ::
  "stdlib \<Rightarrow> APIGatewayProxyRequest \<Rightarrow> field list \<Rightarrow> field list \<times> outcome" where
  "unmarshalFields L req [] = ([], NoError)"
| "unmarshalFields L req (f # fs) =
     (if Tag f = [] then
        (case unmarshalFields L req fs of (fs', r) \<Rightarrow> (f # fs', r))
      else
        let components = Split (Tag f) (CHR ''.'') in
        if length components \<noteq> 2 then (f # fs, Error (InvalidTag (Name f)))
        else
          let maps =
            (if components ! 0 = ''query'' then
               Some (QueryStringParameters req, MultiValueQueryStringParameters req)
             else if components ! 0 = ''path'' then
               Some (PathParameters req, Map.empty)
             else if components ! 0 = ''header'' then
               Some (Headers req, MultiValueHeaders req)
             else None)
          in case maps of
               None \<Rightarrow> (f # fs, Error (InvalidLocation (components ! 0) (Name f)))
             | Some (sourceMap, multiMap) \<Rightarrow>
                 (case unmarshalField L (Type f) (Value f) sourceMap multiMap
                         (components ! 1) of
                    (v, NoError) \<Rightarrow>
                      (case unmarshalFields L req fs of
                         (fs', r) \<Rightarrow> (f\<lparr>Value := v\<rparr> # fs', r))
                  | (v, r) \<Rightarrow> (f\<lparr>Value := v\<rparr> # fs, r)))"

text \<open>
  \<^verbatim>\<open>unmarshalEvent\<close>: the target must be a non-nil pointer; \<^verbatim>\<open>t.NumField()\<close> then panics
  when the pointer does not point to a struct.
\<close>

fun unmarshalEvent :: "stdlib \<Rightarrow> APIGatewayProxyRequest \<Rightarrow> target \<Rightarrow> target \<times> outcome" where
  "unmarshalEvent L req NonPointer = (NonPointer, Error InvalidTarget)"
| "unmarshalEvent L req NilPointer = (NilPointer, Error InvalidTarget)"
| "unmarshalEvent L req PtrToNonStruct =
     (PtrToNonStruct, Panic ''reflect: NumField of non-struct type'')"
| "unmarshalEvent L req (PtrToStruct fs) =
     (case unmarshalFields L req fs of (fs', r) \<Rightarrow> (PtrToStruct fs', r))"

text \<open>
  \<^verbatim>\<open>unmarshalBody\<close>: a failure of the base64 decoding returns the wrapping error at
  once; a failure of \<^verbatim>\<open>json.Unmarshal\<close> becomes an \<^verbatim>\<open>HTTPError\<close> with status 400.
\<close>

definition unmarshalBody ::
  "stdlib \<Rightarrow> APIGatewayProxyRequest \<Rightarrow> target \<Rightarrow> target \<times> outcome" where
  "unmarshalBody L req tgt =
     (let decoded =
        (if IsBase64Encoded req then
           (case DecodeString L (Body req) of
              Inl err \<Rightarrow> Inl (DecodeError err)
            | Inr body \<Rightarrow> Inr (Unmarshal L body tgt))
         else Inr (Unmarshal L (Body req) tgt))
      in case decoded of
           Inl e \<Rightarrow> (tgt, Error e)
         | Inr (tgt', Some err) \<Rightarrow>
             (tgt', Error (HTTPError StatusBadRequest (''invalid request body: '' @ err)))
         | Inr (tgt', None) \<Rightarrow> (tgt', NoError))"

definition UnmarshalRequest ::
  "stdlib \<Rightarrow> APIGatewayProxyRequest \<Rightarrow> bool \<Rightarrow> target \<Rightarrow> target \<times> outcome" where
  "UnmarshalRequest L req body tgt =
     (if body then
        (case unmarshalBody L req tgt of
           (tgt', NoError) \<Rightarrow> unmarshalEvent L req tgt'
         | (tgt', r) \<Rightarrow> (tgt', r))
      else unmarshalEvent L req tgt)"

text \<open>
  The status code an outcome carries: only an \<^verbatim>\<open>HTTPError\<close> has one; the errors made
  with \<^verbatim>\<open>errors.New\<close> and \<^verbatim>\<open>fmt.Errorf\<close> and the error of \<^verbatim>\<open>time.Parse\<close> have none.
\<close>

fun status_code :: "outcome \<Rightarrow> nat option" where
  "status_code (Error (HTTPError code message)) = Some code"
| "status_code r = None"

subsection \<open>Example inputs\<close>

text \<open>
  A standard library for the examples below: \<^verbatim>\<open>ParseFloat\<close> and \<^verbatim>\<open>time.Parse\<close> reject
  every text, and the base64 decoder rejects every text with the error of a malformed
  first byte. \<^verbatim>\<open>json.Unmarshal\<close> checks the syntax of the document first and the target
  after it, as \<^verbatim>\<open>encoding/json\<close> does: the document \<^verbatim>\<open>{}\<close> is the one well-formed
  document of the examples, every other text is malformed and reported as the body
  \<^verbatim>\<open>!\<close> is; with \<^verbatim>\<open>{}\<close>, a target that is
  not a pointer or is a nil pointer is rejected with the \<^verbatim>\<open>InvalidUnmarshalError\<close> (for a
  target type named \<^verbatim>\<open>lmdrouter.input\<close>), a pointer to a non-struct (an \<^verbatim>\<open>*int\<close>) with the
  \<^verbatim>\<open>UnmarshalTypeError\<close>, and a pointer to a struct is accepted, nothing being written.
\<close>

definition example_stdlib :: stdlib where
  "example_stdlib =
     \<lparr> ParseFloat = (\<lambda>s. None),
       ParseTime = (\<lambda>s. Inl ''parsing time: cannot parse''),
       DecodeString = (\<lambda>s. Inl ''illegal base64 data at input byte 0''),
       Unmarshal = (\<lambda>data tgt.
         if data \<noteq> ''{}'' then (tgt, Some ''invalid character '!' looking for beginning of value'')
         else case tgt of
           NonPointer \<Rightarrow> (tgt, Some ''json: Unmarshal(non-pointer lmdrouter.input)'')
         | NilPointer \<Rightarrow> (tgt, Some ''json: Unmarshal(nil *lmdrouter.input)'')
         | PtrToNonStruct \<Rightarrow>
             (tgt, Some ''json: cannot unmarshal object into Go value of type int'')
         | PtrToStruct fs \<Rightarrow> (tgt, None)) \<rparr>"

definition example_request :: APIGatewayProxyRequest where
  "example_request =
     \<lparr> QueryStringParameters = [''page'' \<mapsto> ''300'', ''ids'' \<mapsto> ''x''],
       MultiValueQueryStringParameters = [''page'' \<mapsto> [''300''], ''ids'' \<mapsto> [''1'', ''x'']],
       PathParameters = [''id'' \<mapsto> ''7''],
       Headers = [''Accept-Language'' \<mapsto> ''en''],
       MultiValueHeaders = [''Accept-Language'' \<mapsto> [''en'', ''de'']],
       Body = ''!'',
       IsBase64Encoded = True \<rparr>"


section \<open>Properties\<close>

subsection \<open>The loop of the slice case\<close>






subsection \<open>Narrowing\<close>

text \<open>
  Keeping the low \<open>w\<close> bits of an integer, read as two's complement: the result is in
  the range of the width and differs from the integer by a multiple of \<open>2 ^ w\<close>.
\<close>

lemma wrap_int_range:
  fixes x :: int
  assumes "0 < w"
  shows "- (2 ^ (w - 1)) \<le> (x + 2 ^ (w - 1)) mod 2 ^ w - 2 ^ (w - 1)
       \<and> (x + 2 ^ (w - 1)) mod 2 ^ w - 2 ^ (w - 1) < 2 ^ (w - 1)
       \<and> ((x + 2 ^ (w - 1)) mod 2 ^ w - 2 ^ (w - 1) - x) mod 2 ^ w = 0"
proof -
  define h :: int where "h = 2 ^ (w - 1)"
  define m :: int where "m = 2 ^ w"
  have m: "m = 2 * h" using assms by (cases w) (simp_all add: m_def h_def)
  have hpos: "0 < h" by (simp add: h_def)
  have lo: "0 \<le> (x + h) mod m" using hpos m by simp
  have hi: "(x + h) mod m < m" using hpos m by simp
  have "((x + h) mod m - h - x) mod m = ((x + h) mod m - (x + h)) mod m"
    by (simp add: algebra_simps)
  also have "\<dots> = ((x + h) - (x + h)) mod m"
    by (rule mod_diff_left_eq)
  finally have z: "((x + h) mod m - h - x) mod m = 0" by simp
  from lo hi z m show ?thesis unfolding h_def m_def by linarith
qed

subsection \<open>Boolean fields\<close>

text \<open>
  C1. The claim: a boolean field becomes true exactly when the lower-cased text is one of
  \<^verbatim>\<open>1\<close>, \<^verbatim>\<open>true\<close>, \<^verbatim>\<open>on\<close>, \<^verbatim>\<open>enabled\<close>. The documentation of \<^verbatim>\<open>UnmarshalRequest\<close> says the
  same ("Any other value is considered false"). The code does otherwise: the pattern
  \<^verbatim>\<open>^1|true|on|enabled$\<close> anchors only its first and last alternative, so the text
  \<^verbatim>\<open>none\<close>, which is none of the four tokens but contains \<^verbatim>\<open>on\<close>, binds the field to
  true.
\<close>

theorem C1_bool_accepts_other_text:
  "unmarshalField L TBool v [''show_hidden'' \<mapsto> ''none''] multiParam ''show_hidden''
     = (VBool True, NoError)
   \<and> ToLower ''none'' \<notin> {''1'', ''true'', ''on'', ''enabled''}"
  by (simp add: boolRegex_MatchString_def ToLower_def lower_char_def HasSuffix_def)

subsection \<open>Annotations\<close>




subsection \<open>Optional fields\<close>

text \<open>
  C3. The claim: a present value of an optional integer field is parsed as a base-10
  integer. The code lists \<^verbatim>\<open>Int\<close>, \<^verbatim>\<open>Int32\<close>, \<^verbatim>\<open>Int64\<close>, \<^verbatim>\<open>Float32\<close> and \<^verbatim>\<open>Float64\<close> next to
  \<^verbatim>\<open>String\<close> in the pointer case and converts the address of the raw text to the
  field's pointer type; for a field of type \<^verbatim>\<open>*int\<close> and the text \<^verbatim>\<open>5\<close> that conversion
  panics, and the field stays nil.
\<close>

theorem C3_optional_int_panics:
  "unmarshalField L (TPtr TInt) (VPtr None) [''size'' \<mapsto> ''5''] multiParam ''size''
     = (VPtr None, Panic ''reflect.Value.Convert'')"
  by simp

subsection \<open>Slice fields\<close>

text \<open>
  C4, counterexample. The claim: a slice field annotated with the source \<^verbatim>\<open>path\<close> fails
  with a configuration error. In the code the multi-valued map of \<^verbatim>\<open>path\<close> stays nil,
  the lookup of the key finds nothing, and the call returns nil with the field as it
  was.
\<close>

theorem C4_counterexample:
  "unmarshalEvent example_stdlib example_request
     (PtrToStruct [\<lparr>Name = ''IDs'', Tag = ''path.id'', Type = TSlice TString, Value = VSlice None\<rparr>])
   = (PtrToStruct [\<lparr>Name = ''IDs'', Tag = ''path.id'', Type = TSlice TString, Value = VSlice None\<rparr>],
      NoError)"
  by (simp add: example_request_def)

text \<open>
  C4, as amended. A slice field whose tag is \<^verbatim>\<open>path.<key>\<close> is passed over: it keeps
  its content, no error is returned for it, and binding continues with the next field.
\<close>

theorem C4_path_slice_skipped:
  assumes "Split (Tag f) (CHR ''.'') = [''path'', key]" and "Type f = TSlice et"
  shows "unmarshalFields L req (f # fs)
           = (case unmarshalFields L req fs of (fs', r) \<Rightarrow> (f # fs', r))"
proof -
  have "Tag f \<noteq> []" using assms(1) by auto
  then show ?thesis using assms by (simp add: Let_def)
qed

text \<open>
  C4, witness: a field of type \<^verbatim>\<open>[]string\<close> with the tag \<^verbatim>\<open>path.id\<close>.
\<close>

theorem C4_path_slice_skipped_witness:
  "unmarshalFields example_stdlib example_request
     [\<lparr>Name = ''IDs'', Tag = ''path.id'', Type = TSlice TString, Value = VSlice None\<rparr>]
   = ([\<lparr>Name = ''IDs'', Tag = ''path.id'', Type = TSlice TString, Value = VSlice None\<rparr>],
      NoError)"
  using C4_path_slice_skipped
          [of "\<lparr>Name = ''IDs'', Tag = ''path.id'', Type = TSlice TString, Value = VSlice None\<rparr>"
              "''id''" TString example_stdlib example_request "[]"]
  by simp

text \<open>
  C5. The claim: the error of a slice element names the field's key, as the error of a
  scalar field does. The code converts each element under the literal key \<^verbatim>\<open>param\<close>, so
  for the key \<^verbatim>\<open>ids\<close> and the element \<^verbatim>\<open>x\<close> the message of the slice field reads
  \<^verbatim>\<open>param must be a valid integer\<close>, where the scalar field reports
  \<^verbatim>\<open>ids must be a valid integer\<close>. Both are \<^verbatim>\<open>HTTPError\<close>s with status 400.
\<close>

theorem C5_slice_error_names_param:
  "unmarshalField L (TSlice TInt) v params [''ids'' \<mapsto> [''1'', ''x'']] ''ids''
     = (v, Error (HTTPError 400 ''param must be a valid integer''))
   \<and> unmarshalField L TInt v [''ids'' \<mapsto> ''x''] multiParam ''ids''
     = (v, Error (HTTPError 400 ''ids must be a valid integer''))"
  by (simp add: parseInt64Param_def ParseInt_def ParseUint_def is_digit_def digit_val_def
        SetInt_def StatusBadRequest_def)

subsection \<open>The request body and the target\<close>

text \<open>
  C6, counterexample. The claim: malformed base64 in the body gives an error with the
  bad-request status. The code returns the error of \<^verbatim>\<open>fmt.Errorf\<close> at once, which
  carries no status code.
\<close>

theorem C6_counterexample:
  "UnmarshalRequest example_stdlib example_request True (PtrToStruct [])
     = (PtrToStruct [], Error (DecodeError ''illegal base64 data at input byte 0''))
   \<and> status_code (snd (UnmarshalRequest example_stdlib example_request True (PtrToStruct [])))
     = None"
  by (simp add: UnmarshalRequest_def unmarshalBody_def example_stdlib_def example_request_def)

text \<open>
  C6, as amended. When the body is to be bound, the request is flagged as base64 encoded
  and the decoding fails, the call fails with the error that wraps the decoder's error;
  the target is unchanged and the error carries no status code.
\<close>

theorem C6_decode_failure_unclassified:
  assumes "IsBase64Encoded req" and "DecodeString L (Body req) = Inl e"
  shows "UnmarshalRequest L req True tgt = (tgt, Error (DecodeError e))
       \<and> status_code (snd (UnmarshalRequest L req True tgt)) = None"
  using assms by (simp add: UnmarshalRequest_def unmarshalBody_def)

text \<open>
  C6, witness: the body \<^verbatim>\<open>!\<close> of the example request.
\<close>

theorem C6_decode_failure_unclassified_witness:
  "UnmarshalRequest example_stdlib example_request True NilPointer
     = (NilPointer, Error (DecodeError ''illegal base64 data at input byte 0''))"
  using C6_decode_failure_unclassified
          [of example_request example_stdlib "''illegal base64 data at input byte 0''" NilPointer]
  by (simp add: example_stdlib_def example_request_def)




subsection \<open>Absent keys\<close>

text \<open>
  C8. For a field of kind string, signed or unsigned integer, float or bool whose key is
  absent from the single-valued map, \<^verbatim>\<open>unmarshalField\<close> returns nil and the field holds
  the zero value of its type (whatever it held before).
\<close>

theorem C8_absent_scalar_zero:
  assumes "t \<in> {TString, TInt, TInt8, TInt16, TInt32, TInt64,
                 TUint, TUint8, TUint16, TUint32, TUint64, TFloat32, TFloat64, TBool}"
    and "params param = None"
  shows "unmarshalField L t v params multiParam param = (zero_val t, NoError)"
  using assms
  by (auto simp: parseInt64Param_def parseUint64Param_def parseFloat64Param_def
        SetInt_def SetUint_def boolRegex_MatchString_def ToLower_def HasSuffix_def)

text \<open>
  C8, witness: the key \<^verbatim>\<open>page\<close> is absent from the path parameters of the example
  request; an \<^verbatim>\<open>int16\<close> field holding 7 becomes 0 and a \<^verbatim>\<open>bool\<close> field holding true becomes
  false.
\<close>

theorem C8_absent_scalar_zero_witness:
  "unmarshalField example_stdlib TInt16 (VInt 7) (PathParameters example_request)
     Map.empty ''page'' = (VInt 0, NoError)
   \<and> unmarshalField example_stdlib TBool (VBool True) (PathParameters example_request)
     Map.empty ''page'' = (VBool False, NoError)"
  using C8_absent_scalar_zero [of TInt16 "PathParameters example_request" "''page''"
          example_stdlib "VInt 7" Map.empty]
        C8_absent_scalar_zero [of TBool "PathParameters example_request" "''page''"
          example_stdlib "VBool True" Map.empty]
  by (simp add: example_request_def)

subsection \<open>Slices\<close>



subsection \<open>Integers out of the range of the field\<close>

text \<open>
  C10, counterexample. The claim: a text that parses as a 64-bit integer but does not
  fit the narrower field makes the reflective write panic. \<^verbatim>\<open>SetInt\<close> and \<^verbatim>\<open>SetUint\<close> do
  not check the range: the text \<^verbatim>\<open>300\<close> is written into an \<^verbatim>\<open>int8\<close> and into a \<^verbatim>\<open>uint8\<close>
  field as 44, and nil is returned.
\<close>

theorem C10_counterexample:
  "unmarshalField example_stdlib TInt8 (VInt 0) (QueryStringParameters example_request)
     Map.empty ''page'' = (VInt 44, NoError)
   \<and> unmarshalField example_stdlib TUint8 (VUint 0) (QueryStringParameters example_request)
     Map.empty ''page'' = (VUint 44, NoError)"
  by (simp add: example_request_def parseInt64Param_def parseUint64Param_def ParseInt_def
        ParseUint_def is_digit_def digit_val_def SetInt_def SetUint_def)

text \<open>
  C10, as amended. For a present text that parses as a 64-bit integer, a field of kind
  \<^verbatim>\<open>int8\<close>, \<^verbatim>\<open>int16\<close> or \<^verbatim>\<open>int32\<close> is written without error and without panic: it holds
  the value in the range of its width that differs from the parsed integer by a multiple
  of \<open>2 ^ w\<close>. A field of kind \<^verbatim>\<open>uint8\<close>, \<^verbatim>\<open>uint16\<close> or \<^verbatim>\<open>uint32\<close> holds the parsed value
  modulo \<open>2 ^ w\<close>.
\<close>

theorem C10_narrow_write_wraps:
  assumes "params param = Some str"
  shows "(t \<in> {TInt8, TInt16, TInt32} \<and> ParseInt str = Some x \<longrightarrow>
            (\<exists>y. unmarshalField L t v params multiParam param = (VInt y, NoError) \<and>
                 - (2 ^ (bits t - 1)) \<le> y \<and> y < 2 ^ (bits t - 1) \<and>
                 (y - x) mod 2 ^ bits t = 0))
       \<and> (t \<in> {TUint8, TUint16, TUint32} \<and> ParseUint str = Some n \<longrightarrow>
            unmarshalField L t v params multiParam param = (VUint (n mod 2 ^ bits t), NoError))"
proof (intro conjI impI)
  assume a: "t \<in> {TInt8, TInt16, TInt32} \<and> ParseInt str = Some x"
  define y where "y = (x + 2 ^ (bits t - 1)) mod 2 ^ bits t - 2 ^ (bits t - 1)"
  have t: "t = TInt8 \<or> t = TInt16 \<or> t = TInt32"
    using a by simp
  have p: "ParseInt str = Some x"
    using a by (rule conjunct2)
  have w: "0 < bits t"
    using t by (elim disjE) simp_all
  have "unmarshalField L t v params multiParam param = (SetInt t x, NoError)"
    using t p assms by (elim disjE) (simp_all add: parseInt64Param_def)
  then have r: "unmarshalField L t v params multiParam param = (VInt y, NoError)"
    by (simp only: SetInt_def y_def)
  have wr: "- (2 ^ (bits t - 1)) \<le> y \<and> y < 2 ^ (bits t - 1) \<and> (y - x) mod 2 ^ bits t = 0"
    unfolding y_def by (rule wrap_int_range [OF w])
  show "\<exists>y. unmarshalField L t v params multiParam param = (VInt y, NoError) \<and>
                 - (2 ^ (bits t - 1)) \<le> y \<and> y < 2 ^ (bits t - 1) \<and>
                 (y - x) mod 2 ^ bits t = 0"
    by (rule exI [of _ y], rule conjI, rule r, rule wr)
next
  assume b: "t \<in> {TUint8, TUint16, TUint32} \<and> ParseUint str = Some n"
  have t: "t = TUint8 \<or> t = TUint16 \<or> t = TUint32"
    using b by simp
  have p: "ParseUint str = Some n"
    using b by (rule conjunct2)
  have "unmarshalField L t v params multiParam param = (SetUint t n, NoError)"
    using t p assms by (elim disjE) (simp_all add: parseUint64Param_def)
  then show "unmarshalField L t v params multiParam param
               = (VUint (n mod 2 ^ bits t), NoError)"
    by (simp only: SetUint_def)
qed

text \<open>
  C10, witness: the text \<^verbatim>\<open>300\<close> in an \<^verbatim>\<open>int8\<close> field.
\<close>

theorem C10_narrow_write_wraps_witness:
  "unmarshalField example_stdlib TInt8 (VInt 0) (QueryStringParameters example_request)
     Map.empty ''page'' = (VInt 44, NoError)"
  using C10_narrow_write_wraps [of "QueryStringParameters example_request" "''page''" "''300''"
          TInt8 300 example_stdlib "VInt 0" Map.empty 300]
  by (simp add: example_request_def parseInt64Param_def ParseInt_def
        ParseUint_def is_digit_def digit_val_def SetInt_def)

end
